theory Spec2Isabelle
  imports Main "HOL-Library.Word" "HOL-Library.Signed_Division"
begin

unbundle bit_operations_syntax

section \<open>The host runtime's values\<close>

text \<open>
  The extension exchanges PHP values with its caller. A \<open>Variant\<close> is null, a boolean, a
  64-bit integer, a double, a byte string, an array or an object. A double is kept as its
  64 bits (IEEE 754), since the code under study only stores doubles. An object is
  described by what \<open>create_object\<close> does with it: the class it loads and the parameter
  array it hands to the constructor. An \<open>Array\<close> is an ordered list of key/value pairs.
\<close>

datatype variant =
    VNull
  | VBool bool
  | VInt "64 word"
  | VDouble "64 word"
  | VStr string
  | VArr "(string \<times> variant) list"
  | VObj string "variant list"

type_synonym php_array = "(string \<times> variant) list"

text \<open>\<open>Array::exists(key)\<close>: is the key present.\<close>

definition Array_exists :: "php_array \<Rightarrow> string \<Rightarrow> bool" where
  "Array_exists arr k = (k \<in> set (map fst arr))"

text \<open>
  \<open>Array::add(key, v)\<close> appends a new element. The runtime requires that the key is not
  yet present; the element goes to the end of the array in every case. Keys are kept as
  the strings the code passes: the runtime's conversion of numeric strings to integer
  keys is left out.
\<close>

definition Array_add :: "php_array \<Rightarrow> string \<Rightarrow> variant \<Rightarrow> php_array" where
  "Array_add arr k v = arr @ [(k, v)]"

text \<open>\<open>arr[key]\<close> as an rvalue: the value stored under the key, null when it is absent.\<close>

definition rvalAt :: "php_array \<Rightarrow> string \<Rightarrow> variant" where
  "rvalAt arr k = (case map_of arr k of None \<Rightarrow> VNull | Some v \<Rightarrow> v)"

text \<open>\<open>Array::empty()\<close>.\<close>

definition Array_empty :: "php_array \<Rightarrow> bool" where
  "Array_empty arr = (arr = [])"

text \<open>
  \<open>Variant::toBoolean()\<close>: null, false, 0, 0.0 (either sign), the strings \<open>""\<close> and
  \<open>"0"\<close> and the empty array are false; everything else is true.
\<close>

fun toBoolean :: "variant \<Rightarrow> bool" where
  "toBoolean VNull = False"
| "toBoolean (VBool b) = b"
| "toBoolean (VInt i) = (i \<noteq> 0)"
| "toBoolean (VDouble d) = (d AND 0x7FFFFFFFFFFFFFFF \<noteq> 0)"
| "toBoolean (VStr s) = (s \<noteq> '''' \<and> s \<noteq> ''0'')"
| "toBoolean (VArr a) = (a \<noteq> [])"
| "toBoolean (VObj c ps) = True"

text \<open>
  \<open>Variant::toInt64()\<close>. The conversions of a double and of a string to an integer belong
  to the runtime and are taken as parameters; an array converts to 0 or 1 and an object
  to 1.
\<close>

fun toInt64 :: "(64 word \<Rightarrow> 64 word) \<Rightarrow> (string \<Rightarrow> 64 word) \<Rightarrow> variant \<Rightarrow> 64 word" where
  "toInt64 dconv sconv VNull = 0"
| "toInt64 dconv sconv (VBool b) = (if b then 1 else 0)"
| "toInt64 dconv sconv (VInt i) = i"
| "toInt64 dconv sconv (VDouble d) = dconv d"
| "toInt64 dconv sconv (VStr s) = sconv s"
| "toInt64 dconv sconv (VArr a) = (if a = [] then 0 else 1)"
| "toInt64 dconv sconv (VObj c ps) = 1"

text \<open>
  \<open>create_object(className, params)\<close> loads the class, makes an instance and invokes the
  constructor on the parameters.
\<close>

definition create_object :: "string \<Rightarrow> variant list \<Rightarrow> variant" where
  "create_object className params = VObj className params"

text \<open>The class names of \<open>contrib/classes.h\<close>.\<close>

definition s_MongoBinData :: string where "s_MongoBinData = ''MongoBinData''"
definition s_MongoId :: string where "s_MongoId = ''MongoId''"
definition s_MongoDate :: string where "s_MongoDate = ''MongoDate''"
definition s_MongoRegex :: string where "s_MongoRegex = ''MongoRegex''"
definition s_MongoDBRef :: string where "s_MongoDBRef = ''MongoDBRef''"
definition s_MongoCode :: string where "s_MongoCode = ''MongoCode''"
definition s_MongoTimestamp :: string where "s_MongoTimestamp = ''MongoTimestamp''"
definition s_MongoMaxKey :: string where "s_MongoMaxKey = ''MongoMaxKey''"
definition s_MongoMinKey :: string where "s_MongoMinKey = ''MongoMinKey''"

section \<open>BSON documents as the iterator presents them\<close>

text \<open>
  The decoder never reads bytes itself: libbson's \<open>bson_iter_visit_all\<close> walks the
  document and calls one visitor per element. A document is therefore described by what
  its iterator does: whether \<open>bson_iter_init\<close> accepts it, and the sequence of steps of
  the traversal. A step is an element (key and typed value), the point where libbson
  itself gives up and reports early termination (a key or a string that is not valid
  UTF-8), or the point where the bytes are corrupt and the traversal just ends.
\<close>

type_synonym bson_oid_t = "8 word list"

datatype bson_value =
    BDouble "64 word"
  | BUtf8 string
  | BDocument bson_t
  | BArray bson_t
  | BBinary "8 word" string
  | BUndefined
  | BOid bson_oid_t
  | BBool bool
  | BDateTime "64 word"
  | BNull
  | BRegex string string
  | BDBPointer string bson_oid_t
  | BCode string
  | BSymbol string
  | BCodeWScope string bson_t
  | BInt32 "32 word"
  | BTimestamp "32 word" "32 word"
  | BInt64 "64 word"
  | BMaxKey
  | BMinKey
and bson_t = Bson (iter_init_ok: bool) (steps: "bson_step list")
and bson_step = Field string bson_value | Utf8Error | Corrupt

text \<open>A C string ends at its first NUL byte.\<close>

definition c_str :: "string \<Rightarrow> string" where
  "c_str s = takeWhile (\<lambda>c. c \<noteq> CHR 0x00) s"

text \<open>\<open>bson_oid_to_string\<close>: two lower-case hexadecimal digits per byte.\<close>

definition hex_digit :: "nat \<Rightarrow> char" where
  "hex_digit n = ''0123456789abcdef'' ! (n mod 16)"

definition bson_oid_to_string :: "bson_oid_t \<Rightarrow> string" where
  "bson_oid_to_string oid =
     concat (map (\<lambda>b. [hex_digit (unat b div 16), hex_digit (unat b mod 16)]) oid)"

section \<open>The visitors of bson\_decode.cpp\<close>

text \<open>
  Every visitor receives the key, the element's payload and the output array, and
  returns the stop flag together with the output array as it leaves it.
\<close>

definition cbson_loads_visit_double :: "string \<Rightarrow> 64 word \<Rightarrow> php_array \<Rightarrow> bool \<times> php_array" where
  "cbson_loads_visit_double key v_double output = (False, Array_add output key (VDouble v_double))"

definition cbson_loads_visit_utf8 :: "string \<Rightarrow> string \<Rightarrow> php_array \<Rightarrow> bool \<times> php_array" where
  "cbson_loads_visit_utf8 key v_utf8 output = (False, Array_add output key (VStr (c_str v_utf8)))"

definition cbson_loads_visit_binary ::
  "string \<Rightarrow> 8 word \<Rightarrow> string \<Rightarrow> php_array \<Rightarrow> bool \<times> php_array" where
  "cbson_loads_visit_binary key v_subtype v_binary output =
     (let data = create_object s_MongoBinData [VStr v_binary, VInt (ucast v_subtype)]
      in (False, Array_add output key data))"

definition cbson_loads_visit_oid :: "string \<Rightarrow> bson_oid_t \<Rightarrow> php_array \<Rightarrow> bool \<times> php_array" where
  "cbson_loads_visit_oid key oid output =
     (let id = bson_oid_to_string oid;
          data = create_object s_MongoId [VStr id]
      in (False, Array_add output key data))"

definition cbson_loads_visit_bool :: "string \<Rightarrow> bool \<Rightarrow> php_array \<Rightarrow> bool \<times> php_array" where
  "cbson_loads_visit_bool key v_bool output = (False, Array_add output key (VBool v_bool))"

text \<open>C++ division and remainder of signed 64-bit integers truncate towards zero.\<close>

definition cbson_loads_visit_date_time :: "string \<Rightarrow> 64 word \<Rightarrow> php_array \<Rightarrow> bool \<times> php_array" where
  "cbson_loads_visit_date_time key msec_since_epoch output =
     (let msec = msec_since_epoch;
          data = create_object s_MongoDate
                   [VInt (word_of_int (sint msec sdiv 1000)),
                    VInt (word_of_int (sint msec smod 1000) * 1000)]
      in (False, Array_add output key data))"

definition cbson_loads_visit_null :: "string \<Rightarrow> php_array \<Rightarrow> bool \<times> php_array" where
  "cbson_loads_visit_null key output = (False, Array_add output key VNull)"

definition cbson_loads_visit_regex :: "string \<Rightarrow> string \<Rightarrow> string \<Rightarrow> php_array \<Rightarrow> bool \<times> php_array" where
  "cbson_loads_visit_regex key regex options output =
     (let regex_string = ''/'' @ c_str regex @ ''/'' @ c_str options;
          data = create_object s_MongoRegex [VStr regex_string]
      in (False, Array_add output key data))"

definition cbson_loads_visit_dbpointer ::
  "string \<Rightarrow> string \<Rightarrow> bson_oid_t \<Rightarrow> php_array \<Rightarrow> bool \<times> php_array" where
  "cbson_loads_visit_dbpointer key v_collection v_oid output =
     (let id = bson_oid_to_string v_oid;
          data = create_object s_MongoDBRef [VStr v_collection, VStr id]
      in (False, Array_add output key data))"

definition cbson_loads_visit_code :: "string \<Rightarrow> string \<Rightarrow> php_array \<Rightarrow> bool \<times> php_array" where
  "cbson_loads_visit_code key v_code output =
     (let data = create_object s_MongoCode [VStr v_code]
      in (False, Array_add output key data))"

definition cbson_loads_visit_int32 :: "string \<Rightarrow> 32 word \<Rightarrow> php_array \<Rightarrow> bool \<times> php_array" where
  "cbson_loads_visit_int32 key v_int32 output = (False, Array_add output key (VInt (scast v_int32)))"

definition cbson_loads_visit_timestamp ::
  "string \<Rightarrow> 32 word \<Rightarrow> 32 word \<Rightarrow> php_array \<Rightarrow> bool \<times> php_array" where
  "cbson_loads_visit_timestamp key timestamp increment output =
     (let data = create_object s_MongoTimestamp [VInt (ucast timestamp), VInt (ucast increment)]
      in (False, Array_add output key data))"

definition cbson_loads_visit_int64 :: "string \<Rightarrow> 64 word \<Rightarrow> php_array \<Rightarrow> bool \<times> php_array" where
  "cbson_loads_visit_int64 key v_int64 output = (False, Array_add output key (VInt v_int64))"

definition cbson_loads_visit_maxkey :: "string \<Rightarrow> php_array \<Rightarrow> bool \<times> php_array" where
  "cbson_loads_visit_maxkey key output =
     (let data = create_object s_MongoMaxKey [] in (False, Array_add output key data))"

definition cbson_loads_visit_minkey :: "string \<Rightarrow> php_array \<Rightarrow> bool \<times> php_array" where
  "cbson_loads_visit_minkey key output =
     (let data = create_object s_MongoMinKey [] in (False, Array_add output key data))"

text \<open>
  \<open>bson_iter_visit_all\<close> with the table \<open>gLoadsVisitors\<close>: each element goes to the
  visitor of its type, and the traversal returns true as soon as a visitor does. The
  table has no visitor (NULL) for before, after, corrupt, undefined, symbol and code with
  scope, so these are passed over. \<open>visit_value\<close> is the dispatch on the type;
  \<open>cbson_loads_visit_document\<close> and \<open>cbson_loads_visit_array\<close> start a child traversal
  on a fresh array, and add the array to the parent only when the child's iterator could
  be initialised and the child traversal did not return true.
\<close>

fun bson_iter_visit_all :: "bson_step list \<Rightarrow> php_array \<Rightarrow> bool \<times> php_array"
and visit_value :: "string \<Rightarrow> bson_value \<Rightarrow> php_array \<Rightarrow> bool \<times> php_array"
and cbson_loads_visit_document :: "string \<Rightarrow> bson_t \<Rightarrow> php_array \<Rightarrow> bool \<times> php_array"
and cbson_loads_visit_array :: "string \<Rightarrow> bson_t \<Rightarrow> php_array \<Rightarrow> bool \<times> php_array"
where
  "bson_iter_visit_all [] data = (False, data)"
| "bson_iter_visit_all (Corrupt # rest) data = (False, data)"
| "bson_iter_visit_all (Utf8Error # rest) data = (True, data)"
| "bson_iter_visit_all (Field key v # rest) data =
     (case visit_value key v data of
        (True, data') \<Rightarrow> (True, data')
      | (False, data') \<Rightarrow> bson_iter_visit_all rest data')"
| "visit_value key (BDouble d) data = cbson_loads_visit_double key d data"
| "visit_value key (BUtf8 s) data = cbson_loads_visit_utf8 key s data"
| "visit_value key (BDocument b) data = cbson_loads_visit_document key b data"
| "visit_value key (BArray b) data = cbson_loads_visit_array key b data"
| "visit_value key (BBinary st bs) data = cbson_loads_visit_binary key st bs data"
| "visit_value key BUndefined data = (False, data)"
| "visit_value key (BOid oid) data = cbson_loads_visit_oid key oid data"
| "visit_value key (BBool b) data = cbson_loads_visit_bool key b data"
| "visit_value key (BDateTime t) data = cbson_loads_visit_date_time key t data"
| "visit_value key BNull data = cbson_loads_visit_null key data"
| "visit_value key (BRegex r opts) data = cbson_loads_visit_regex key r opts data"
| "visit_value key (BDBPointer c oid) data = cbson_loads_visit_dbpointer key c oid data"
| "visit_value key (BCode c) data = cbson_loads_visit_code key c data"
| "visit_value key (BSymbol s) data = (False, data)"
| "visit_value key (BCodeWScope c sc) data = (False, data)"
| "visit_value key (BInt32 i) data = cbson_loads_visit_int32 key i data"
| "visit_value key (BTimestamp t i) data = cbson_loads_visit_timestamp key t i data"
| "visit_value key (BInt64 i) data = cbson_loads_visit_int64 key i data"
| "visit_value key BMaxKey data = cbson_loads_visit_maxkey key data"
| "visit_value key BMinKey data = cbson_loads_visit_minkey key data"
| "cbson_loads_visit_document key (Bson ok child) ret =
     (if ok then
        (case bson_iter_visit_all child [] of
           (False, obj) \<Rightarrow> (False, Array_add ret key (VArr obj))
         | (True, obj) \<Rightarrow> (False, ret))
      else (False, ret))"
| "cbson_loads_visit_array key (Bson ok child) ret =
     (if ok then
        (case bson_iter_visit_all child [] of
           (False, obj) \<Rightarrow> (False, Array_add ret key (VArr obj))
         | (True, obj) \<Rightarrow> (False, ret))
      else (False, ret))"


section \<open>Errors\<close>

text \<open>
  Modelled from the spec: \<open>mongoThrow\<close> is declared in \<open>ext_mongo.h\<close>, which is not among
  the sources. By the spec's error handling design a failure ends the call and is
  propagated with the message attached; the exception is described by its class and its
  message.
\<close>

datatype error = MongoException string | MongoCursorException string

definition mongoThrow :: "(string \<Rightarrow> error) \<Rightarrow> string \<Rightarrow> error + 'a" where
  "mongoThrow cls message = Inl (cls message)"

section \<open>Decoding a document\<close>

text \<open>
  \<open>cbson_loads\<close> takes a pointer to a document. \<open>bson_iter_init\<close> fails on a NULL pointer
  and on a document it rejects. The result of the traversal is not looked at: the array
  is returned as far as it was filled.
\<close>

definition cbson_loads :: "bson_t option \<Rightarrow> error + php_array" where
  "cbson_loads bson =
     (case bson of
        None \<Rightarrow> mongoThrow MongoException ''Failed to initialize BSON iterator''
      | Some b \<Rightarrow>
          if \<not> iter_init_ok b
          then mongoThrow MongoException ''Failed to initialize BSON iterator''
          else Inr (snd (bson_iter_visit_all (steps b) [])))"

text \<open>The little-endian 32-bit length that opens a BSON document, read as signed.\<close>

definition byte_at :: "string \<Rightarrow> nat \<Rightarrow> 32 word" where
  "byte_at buf i = of_nat (of_char (buf ! i))"

definition declared_length :: "string \<Rightarrow> int" where
  "declared_length buf =
     sint (byte_at buf 0 OR push_bit 8 (byte_at buf 1) OR push_bit 16 (byte_at buf 2)
             OR push_bit 24 (byte_at buf 3))"

text \<open>
  Modelled from the spec: \<open>bson_reader_read\<close> belongs to libbson and is not among the
  sources. By the spec a valid BSON document needs at least 5 bytes and a buffer that is
  truncated or whose length prefix is inconsistent is malformed: the reader yields no
  document when the buffer has fewer than 5 bytes, when the declared length is below 5
  and when the declared length exceeds the bytes at hand. What the library makes of a
  buffer that passes these checks is the parameter \<open>view\<close>: the document as its iterator
  presents it, or nothing when the library rejects the bytes for another reason.
\<close>

definition bson_reader_read :: "(string \<Rightarrow> bson_t option) \<Rightarrow> string \<Rightarrow> bson_t option" where
  "bson_reader_read view buf =
     (if 4 < length buf then
        (let blen = declared_length buf in
         if blen < 5 then None
         else if int (length buf) < blen then None
         else view (take (nat blen) buf))
      else None)"

definition cbson_loads_from_string :: "(string \<Rightarrow> bson_t option) \<Rightarrow> string \<Rightarrow> error + php_array" where
  "cbson_loads_from_string view bson =
     (case bson_reader_read view bson of
        None \<Rightarrow> mongoThrow MongoException
                  ''Unexpected end of BSON. Input document is likely corrupted!''
      | Some obj \<Rightarrow> cbson_loads (Some obj))"

section \<open>The collection methods of MongoCollection.cpp\<close>

text \<open>
  The driver (libmongoc), the encoder of \<open>contrib/encode.h\<close> and the generator of object
  identifiers are outside the sources and are parameters of every call. The flags and
  the write concern level are the driver's enumerations, with one constructor per named
  value.
\<close>

datatype mongoc_insert_flags_t = MONGOC_INSERT_NONE | MONGOC_INSERT_CONTINUE_ON_ERROR
datatype mongoc_delete_flags_t = MONGOC_DELETE_NONE | MONGOC_DELETE_SINGLE_REMOVE
datatype mongoc_update_flags_t =
  MONGOC_UPDATE_NONE | MONGOC_UPDATE_UPSERT | MONGOC_UPDATE_MULTI_UPDATE

datatype w_level =
    MONGOC_WRITE_CONCERN_W_UNACKNOWLEDGED
  | MONGOC_WRITE_CONCERN_W_ERRORS_IGNORED
  | MONGOC_WRITE_CONCERN_W_DEFAULT
  | MONGOC_WRITE_CONCERN_W_MAJORITY
  | MONGOC_WRITE_CONCERN_W_TAG

datatype mongoc_write_concern_t = WriteConcern w_level

text \<open>\<open>mongoc_write_concern_new\<close> and \<open>mongoc_write_concern_set_w\<close>.\<close>

definition mongoc_write_concern_new :: mongoc_write_concern_t where
  "mongoc_write_concern_new = WriteConcern MONGOC_WRITE_CONCERN_W_DEFAULT"

definition mongoc_write_concern_set_w :: "mongoc_write_concern_t \<Rightarrow> w_level \<Rightarrow> mongoc_write_concern_t" where
  "mongoc_write_concern_set_w wc w = WriteConcern w"

text \<open>
  The \<open>MongoCollection\<close> object the method is called on, with the properties that
  \<open>get_collection\<close> reads, and the collection handle it obtains from the client.
\<close>

record this_object =
  db_name :: string
  collection_name :: string

datatype mongoc_collection_t = Collection string string

definition get_collection :: "this_object \<Rightarrow> mongoc_collection_t" where
  "get_collection obj = Collection (db_name obj) (collection_name obj)"

text \<open>What a call hands to the driver.\<close>

datatype request =
    Insert_req mongoc_collection_t mongoc_insert_flags_t bson_t mongoc_write_concern_t
  | Delete_req mongoc_collection_t mongoc_delete_flags_t bson_t mongoc_write_concern_t
  | Update_req mongoc_collection_t mongoc_update_flags_t bson_t bson_t mongoc_write_concern_t

text \<open>
  \<open>mongoc_reply\<close> stands for \<open>mongoc_collection_insert\<close>, \<open>mongoc_collection_delete\<close> and
  \<open>mongoc_collection_update\<close>: \<open>None\<close> when the driver returns true, \<open>Some m\<close> when it
  returns false and leaves \<open>m\<close> in \<open>error.message\<close>.
\<close>

record driver =
  bson_oid_init :: bson_oid_t
  encodeToBSON :: "php_array \<Rightarrow> bson_t"
  mongoc_reply :: "request \<Rightarrow> string option"
  mongoc_collection_get_last_error :: "bson_t option"
  double_toInt64 :: "64 word \<Rightarrow> 64 word"
  string_toInt64 :: "string \<Rightarrow> 64 word"

text \<open>
  What a call does besides returning: the resources it obtains and gives back, and the
  requests it submits, in the order of the statements.
\<close>

datatype resource =
  R_collection | R_doc | R_criteria_b | R_selector | R_update | R_write_concern

datatype event = Acquire resource | Release resource | Submit request

record outcome =
  trace :: "event list"
  result :: "error + variant"

record insert_outcome = outcome +
  doc_array :: php_array

fun submitted :: "event list \<Rightarrow> request list" where
  "submitted [] = []"
| "submitted (Submit r # es) = r # submitted es"
| "submitted (e # es) = submitted es"

fun acquired :: "event list \<Rightarrow> resource list" where
  "acquired [] = []"
| "acquired (Acquire r # es) = r # acquired es"
| "acquired (e # es) = acquired es"

fun released :: "event list \<Rightarrow> resource list" where
  "released [] = []"
| "released (Release r # es) = r # released es"
| "released (e # es) = released es"

text \<open>
  The method \<open>insert\<close>. The parameter \<open>a\<close> is received by value (\<open>Variant a\<close>; the
  PHP signature is \<open>insert(mixed $a, array $options)\<close>, without \<open>&\<close>), and \<open>doc_array\<close>
  is a reference to the array of this parameter (\<open>a.toArrRef()\<close>). What the caller gets
  back is \<open>result\<close>, the returned value or the exception; \<open>doc_array\<close> records the
  method's own array as it stands at the end, which is the array that was encoded. The
  parameter \<open>options\<close> is never read.
\<close>

definition MongoCollection_insert :: "driver \<Rightarrow> this_object \<Rightarrow> php_array \<Rightarrow> php_array \<Rightarrow> insert_outcome" where
  "MongoCollection_insert drv this a options =
     (let collection = get_collection this;
          doc_array =
            (if \<not> Array_exists a ''_id'' then
               (let id = bson_oid_to_string (bson_oid_init drv);
                    data = create_object ''MongoId'' [VStr id]
                in Array_add a ''_id'' data)
             else a);
          doc = encodeToBSON drv doc_array;
          w_flag = MONGOC_WRITE_CONCERN_W_DEFAULT;
          write_concern = mongoc_write_concern_set_w mongoc_write_concern_new w_flag;
          req = Insert_req collection MONGOC_INSERT_NONE doc write_concern;
          tr = [Acquire R_collection, Acquire R_doc, Acquire R_write_concern, Submit req]
      in case mongoc_reply drv req of
           Some message \<Rightarrow>
             \<lparr>trace = tr, result = mongoThrow MongoCursorException message,
              doc_array = doc_array\<rparr>
         | None \<Rightarrow>
             \<lparr>trace = tr @ [Release R_collection, Release R_doc],
              result = Inr (VBool True), doc_array = doc_array\<rparr>)"

text \<open>
  The method \<open>remove\<close>. The delete flag starts as \<open>MONGOC_DELETE_NONE\<close> and is set to
  \<open>MONGOC_DELETE_SINGLE_REMOVE\<close> when the options are not empty and \<open>justOne\<close> converts
  to true.
\<close>

definition MongoCollection_remove :: "driver \<Rightarrow> this_object \<Rightarrow> php_array \<Rightarrow> php_array \<Rightarrow> outcome" where
  "MongoCollection_remove drv this criteria options =
     (let collection = get_collection this;
          criteria_b = encodeToBSON drv criteria;
          delete_flag = MONGOC_DELETE_NONE;
          w_flag = MONGOC_WRITE_CONCERN_W_DEFAULT;
          delete_flag =
            (if \<not> Array_empty options then
               (if toBoolean (rvalAt options ''justOne'') = True
                then MONGOC_DELETE_SINGLE_REMOVE else delete_flag)
             else delete_flag);
          write_concern = mongoc_write_concern_set_w mongoc_write_concern_new w_flag;
          req = Delete_req collection delete_flag criteria_b write_concern;
          tr = [Acquire R_collection, Acquire R_criteria_b, Acquire R_write_concern, Submit req]
      in case mongoc_reply drv req of
           Some message \<Rightarrow> \<lparr>trace = tr, result = mongoThrow MongoCursorException message\<rparr>
         | None \<Rightarrow>
             \<lparr>trace = tr @ [Release R_collection, Release R_criteria_b],
              result = Inr (VBool True)\<rparr>)"

text \<open>
  The method \<open>update\<close>. The update flag is assigned, not combined: \<open>multiple\<close> is
  looked at first and \<open>upsert\<close> second. The two encoded documents are destroyed right
  after the driver call, before its result is tested. The reply of
  \<open>mongoc_collection_get_last_error\<close> is decoded and its fields are copied to the
  returned array.
\<close>

definition MongoCollection_update ::
  "driver \<Rightarrow> this_object \<Rightarrow> php_array \<Rightarrow> php_array \<Rightarrow> php_array \<Rightarrow> outcome" where
  "MongoCollection_update drv this criteria new_object options =
     (let collection = get_collection this;
          selector = encodeToBSON drv criteria;
          update_b = encodeToBSON drv new_object;
          update_flag = MONGOC_UPDATE_NONE;
          w_flag = MONGOC_WRITE_CONCERN_W_DEFAULT;
          update_flag =
            (if \<not> Array_empty options then
               (let update_flag =
                      (if toBoolean (rvalAt options ''multiple'') = True
                       then MONGOC_UPDATE_MULTI_UPDATE else update_flag)
                in if toBoolean (rvalAt options ''upsert'') = True
                   then MONGOC_UPDATE_UPSERT else update_flag)
             else update_flag);
          write_concern = mongoc_write_concern_set_w mongoc_write_concern_new w_flag;
          req = Update_req collection update_flag selector update_b write_concern;
          tr = [Acquire R_collection, Acquire R_selector, Acquire R_update,
                Acquire R_write_concern, Submit req, Release R_update, Release R_selector]
      in case mongoc_reply drv req of
           Some message \<Rightarrow> \<lparr>trace = tr, result = mongoThrow MongoCursorException message\<rparr>
         | None \<Rightarrow>
             (case cbson_loads (mongoc_collection_get_last_error drv) of
                Inl e \<Rightarrow> \<lparr>trace = tr, result = Inl e\<rparr>
              | Inr collectionReturn \<Rightarrow>
                  (let ouput = Array_add [] ''ok'' (VInt 1);
                       ouput = Array_add ouput ''nModified'' (rvalAt collectionReturn ''nModified'');
                       ouput = Array_add ouput ''n'' (rvalAt collectionReturn ''nMatched'');
                       ouput = Array_add ouput ''updatedExisting''
                                 (VBool (0 < sint (toInt64 (double_toInt64 drv) (string_toInt64 drv)
                                                     (rvalAt collectionReturn ''nMatched''))));
                       ouput = Array_add ouput ''err'' (rvalAt collectionReturn ''writeErrors'');
                       ouput = Array_add ouput ''errmsg'' (rvalAt collectionReturn ''writeErrors'');
                       data = create_object ''MongoTimestamp'' [];
                       ouput = Array_add ouput ''lastOp'' data;
                       ouput = Array_add ouput ''mongoRaw'' (VArr collectionReturn)
                   in \<lparr>trace = tr @ [Release R_collection], result = Inr (VArr ouput)\<rparr>)))"


section \<open>Example values\<close>

text \<open>
  A collection object, a driver that accepts every request and whose last-operation
  reply is \<open>{nMatched: 2, nModified: 1, writeErrors: []}\<close>, and a driver that rejects
  every request.
\<close>

definition example_this :: this_object where
  "example_this = \<lparr>db_name = ''test'', collection_name = ''users''\<rparr>"

definition example_reply :: bson_t where
  "example_reply =
     Bson True [Field ''nMatched'' (BInt32 2), Field ''nModified'' (BInt32 1),
                Field ''writeErrors'' (BArray (Bson True []))]"

definition example_encode :: "php_array \<Rightarrow> bson_t" where
  "example_encode arr = Bson True (map (\<lambda>kv. Field (fst kv) BNull) arr)"

definition accepting_driver :: driver where
  "accepting_driver =
     \<lparr>bson_oid_init = [0x54, 0xAB, 0x00, 0x01, 0x02, 0x03, 0x04, 0x05, 0x06, 0x07, 0x08, 0xFF],
      encodeToBSON = example_encode,
      mongoc_reply = (\<lambda>req. None),
      mongoc_collection_get_last_error = Some example_reply,
      double_toInt64 = (\<lambda>d. 0),
      string_toInt64 = (\<lambda>s. 0)\<rparr>"

definition rejecting_driver :: driver where
  "rejecting_driver =
     \<lparr>bson_oid_init = [0x54, 0xAB, 0x00, 0x01, 0x02, 0x03, 0x04, 0x05, 0x06, 0x07, 0x08, 0xFF],
      encodeToBSON = example_encode,
      mongoc_reply = (\<lambda>req. Some ''E11000 duplicate key error''),
      mongoc_collection_get_last_error = None,
      double_toInt64 = (\<lambda>d. 0),
      string_toInt64 = (\<lambda>s. 0)\<rparr>"

definition example_view :: "string \<Rightarrow> bson_t option" where
  "example_view buf = Some (Bson True [])"

section \<open>The methods, case by case\<close>

text \<open>
  Each method builds one request, submits it once and branches on the driver's answer.
  The following lemmas put the three definitions in that form; the flags are given as a
  function of the options.
\<close>

lemma insert_cases:
  assumes "d = (if Array_exists a ''_id'' then a
                else a @ [(''_id'', VObj ''MongoId'' [VStr (bson_oid_to_string (bson_oid_init drv))])])"
    and "req = Insert_req (get_collection this) MONGOC_INSERT_NONE (encodeToBSON drv d)
                 (WriteConcern MONGOC_WRITE_CONCERN_W_DEFAULT)"
  shows "MongoCollection_insert drv this a options =
     (case mongoc_reply drv req of
        Some message \<Rightarrow>
          \<lparr>trace = [Acquire R_collection, Acquire R_doc, Acquire R_write_concern, Submit req],
           result = Inl (MongoCursorException message), doc_array = d\<rparr>
      | None \<Rightarrow>
          \<lparr>trace = [Acquire R_collection, Acquire R_doc, Acquire R_write_concern, Submit req,
                    Release R_collection, Release R_doc],
           result = Inr (VBool True), doc_array = d\<rparr>)"
proof (cases "Array_exists a ''_id''")
  case True
  then show ?thesis
    unfolding assms MongoCollection_insert_def Let_def mongoc_write_concern_set_w_def
      mongoThrow_def
    by (simp split del: if_split split: option.split)
next
  case False
  then show ?thesis
    unfolding assms MongoCollection_insert_def Let_def mongoc_write_concern_set_w_def
      mongoThrow_def Array_add_def create_object_def
    by (simp split del: if_split split: option.split)
qed

lemma delete_flag_eq:
  "(if \<not> Array_empty options then
      (if toBoolean (rvalAt options ''justOne'') = True
       then MONGOC_DELETE_SINGLE_REMOVE else MONGOC_DELETE_NONE)
    else MONGOC_DELETE_NONE)
   = (if toBoolean (rvalAt options ''justOne'') then MONGOC_DELETE_SINGLE_REMOVE
      else MONGOC_DELETE_NONE)"
  by (simp add: Array_empty_def rvalAt_def)

lemma remove_cases:
  assumes "req = Delete_req (get_collection this)
                   (if toBoolean (rvalAt options ''justOne'') then MONGOC_DELETE_SINGLE_REMOVE
                    else MONGOC_DELETE_NONE)
                   (encodeToBSON drv criteria) (WriteConcern MONGOC_WRITE_CONCERN_W_DEFAULT)"
  shows "MongoCollection_remove drv this criteria options =
     (case mongoc_reply drv req of
        Some message \<Rightarrow>
          \<lparr>trace = [Acquire R_collection, Acquire R_criteria_b, Acquire R_write_concern, Submit req],
           result = Inl (MongoCursorException message)\<rparr>
      | None \<Rightarrow>
          \<lparr>trace = [Acquire R_collection, Acquire R_criteria_b, Acquire R_write_concern, Submit req,
                    Release R_collection, Release R_criteria_b],
           result = Inr (VBool True)\<rparr>)"
  unfolding assms MongoCollection_remove_def Let_def delete_flag_eq
    mongoc_write_concern_set_w_def mongoThrow_def
  by (simp split del: if_split split: option.split)

lemma update_flag_eq:
  "(if \<not> Array_empty options then
      (if toBoolean (rvalAt options ''upsert'') = True then MONGOC_UPDATE_UPSERT
       else (if toBoolean (rvalAt options ''multiple'') = True
             then MONGOC_UPDATE_MULTI_UPDATE else MONGOC_UPDATE_NONE))
    else MONGOC_UPDATE_NONE)
   = (if toBoolean (rvalAt options ''upsert'') then MONGOC_UPDATE_UPSERT
      else if toBoolean (rvalAt options ''multiple'') then MONGOC_UPDATE_MULTI_UPDATE
      else MONGOC_UPDATE_NONE)"
  by (simp add: Array_empty_def rvalAt_def)

lemma update_cases:
  assumes "req = Update_req (get_collection this)
                   (if toBoolean (rvalAt options ''upsert'') then MONGOC_UPDATE_UPSERT
                    else if toBoolean (rvalAt options ''multiple'') then MONGOC_UPDATE_MULTI_UPDATE
                    else MONGOC_UPDATE_NONE)
                   (encodeToBSON drv criteria) (encodeToBSON drv new_object)
                   (WriteConcern MONGOC_WRITE_CONCERN_W_DEFAULT)"
    and "tr = [Acquire R_collection, Acquire R_selector, Acquire R_update,
               Acquire R_write_concern, Submit req, Release R_update, Release R_selector]"
  shows "MongoCollection_update drv this criteria new_object options =
     (case mongoc_reply drv req of
        Some message \<Rightarrow> \<lparr>trace = tr, result = Inl (MongoCursorException message)\<rparr>
      | None \<Rightarrow>
          (case cbson_loads (mongoc_collection_get_last_error drv) of
             Inl e \<Rightarrow> \<lparr>trace = tr, result = Inl e\<rparr>
           | Inr reply \<Rightarrow>
               \<lparr>trace = tr @ [Release R_collection],
                result = Inr (VArr
                  [(''ok'', VInt 1),
                   (''nModified'', rvalAt reply ''nModified''),
                   (''n'', rvalAt reply ''nMatched''),
                   (''updatedExisting'',
                      VBool (0 < sint (toInt64 (double_toInt64 drv) (string_toInt64 drv)
                                         (rvalAt reply ''nMatched'')))),
                   (''err'', rvalAt reply ''writeErrors''),
                   (''errmsg'', rvalAt reply ''writeErrors''),
                   (''lastOp'', VObj ''MongoTimestamp'' []),
                   (''mongoRaw'', VArr reply)])\<rparr>))"
proof -
  have "(if \<not> Array_empty options then
          (if toBoolean (rvalAt options ''upsert'') = True then MONGOC_UPDATE_UPSERT
           else (if toBoolean (rvalAt options ''multiple'') = True
                 then MONGOC_UPDATE_MULTI_UPDATE else MONGOC_UPDATE_NONE))
         else MONGOC_UPDATE_NONE)
       = (if toBoolean (rvalAt options ''upsert'') then MONGOC_UPDATE_UPSERT
          else if toBoolean (rvalAt options ''multiple'') then MONGOC_UPDATE_MULTI_UPDATE
          else MONGOC_UPDATE_NONE)"
    by (rule update_flag_eq)
  then show ?thesis
    unfolding assms MongoCollection_update_def Let_def mongoc_write_concern_set_w_def
      mongoThrow_def Array_add_def create_object_def
    by (simp split del: if_split split: option.split sum.split)
qed

lemma insert_facts:
  assumes "d = (if Array_exists a ''_id'' then a
                else a @ [(''_id'', VObj ''MongoId'' [VStr (bson_oid_to_string (bson_oid_init drv))])])"
    and "req = Insert_req (get_collection this) MONGOC_INSERT_NONE (encodeToBSON drv d)
                 (WriteConcern MONGOC_WRITE_CONCERN_W_DEFAULT)"
  shows "submitted (trace (MongoCollection_insert drv this a options)) = [req]"
    and "doc_array (MongoCollection_insert drv this a options) = d"
    and "result (MongoCollection_insert drv this a options)
          = (case mongoc_reply drv req of
               Some message \<Rightarrow> Inl (MongoCursorException message)
             | None \<Rightarrow> Inr (VBool True))"
    and "acquired (trace (MongoCollection_insert drv this a options))
          = [R_collection, R_doc, R_write_concern]"
    and "released (trace (MongoCollection_insert drv this a options))
          = (case mongoc_reply drv req of
               Some message \<Rightarrow> []
             | None \<Rightarrow> [R_collection, R_doc])"
  unfolding insert_cases [OF assms] by (simp_all split: option.split)

lemma remove_facts:
  assumes "req = Delete_req (get_collection this)
                   (if toBoolean (rvalAt options ''justOne'') then MONGOC_DELETE_SINGLE_REMOVE
                    else MONGOC_DELETE_NONE)
                   (encodeToBSON drv criteria) (WriteConcern MONGOC_WRITE_CONCERN_W_DEFAULT)"
  shows "submitted (trace (MongoCollection_remove drv this criteria options)) = [req]"
    and "result (MongoCollection_remove drv this criteria options)
          = (case mongoc_reply drv req of
               Some message \<Rightarrow> Inl (MongoCursorException message)
             | None \<Rightarrow> Inr (VBool True))"
    and "acquired (trace (MongoCollection_remove drv this criteria options))
          = [R_collection, R_criteria_b, R_write_concern]"
    and "released (trace (MongoCollection_remove drv this criteria options))
          = (case mongoc_reply drv req of
               Some message \<Rightarrow> []
             | None \<Rightarrow> [R_collection, R_criteria_b])"
  unfolding remove_cases [OF assms] by (simp_all split: option.split)

lemma update_facts:
  assumes "req = Update_req (get_collection this)
                   (if toBoolean (rvalAt options ''upsert'') then MONGOC_UPDATE_UPSERT
                    else if toBoolean (rvalAt options ''multiple'') then MONGOC_UPDATE_MULTI_UPDATE
                    else MONGOC_UPDATE_NONE)
                   (encodeToBSON drv criteria) (encodeToBSON drv new_object)
                   (WriteConcern MONGOC_WRITE_CONCERN_W_DEFAULT)"
  shows "submitted (trace (MongoCollection_update drv this criteria new_object options)) = [req]"
    and "mongoc_reply drv req = Some message \<Longrightarrow>
         result (MongoCollection_update drv this criteria new_object options)
           = Inl (MongoCursorException message)"
    and "acquired (trace (MongoCollection_update drv this criteria new_object options))
          = [R_collection, R_selector, R_update, R_write_concern]"
    and "released (trace (MongoCollection_update drv this criteria new_object options))
          = (case result (MongoCollection_update drv this criteria new_object options) of
               Inl e \<Rightarrow> [R_update, R_selector]
             | Inr v \<Rightarrow> [R_update, R_selector, R_collection])"
  unfolding update_cases [OF assms refl] by (simp_all split: option.split sum.split)

lemma example_reply_decoded:
  "cbson_loads (Some example_reply)
     = Inr [(''nMatched'', VInt 2), (''nModified'', VInt 1), (''writeErrors'', VArr [])]"
  by (simp add: cbson_loads_def example_reply_def cbson_loads_visit_int32_def Array_add_def)

lemma example_oid_string:
  "bson_oid_to_string [0x54, 0xAB, 0x00, 0x01, 0x02, 0x03, 0x04, 0x05, 0x06, 0x07, 0x08, 0xFF]
     = ''54ab000102030405060708ff''"
  by (simp add: bson_oid_to_string_def hex_digit_def)

section \<open>Result of an update\<close>

text \<open>
  C1. Whenever \<open>update\<close> returns a value, the reply of the last operation was decoded and
  the value is the array built from it: \<open>ok\<close> is 1, \<open>nModified\<close> is the reply's
  \<open>nModified\<close>, \<open>n\<close> is the reply's \<open>nMatched\<close>, \<open>updatedExisting\<close> tells whether
  \<open>nMatched\<close> as an integer is positive, \<open>err\<close> and \<open>errmsg\<close> are both the reply's
  \<open>writeErrors\<close>, \<open>lastOp\<close> is a \<open>MongoTimestamp\<close> built from no arguments and
  \<open>mongoRaw\<close> is the whole decoded reply.
\<close>

theorem update_result_projection:
  assumes "result (MongoCollection_update drv this criteria new_object options) = Inr r"
  shows "\<exists>reply. cbson_loads (mongoc_collection_get_last_error drv) = Inr reply \<and>
     r = VArr [(''ok'', VInt 1),
               (''nModified'', rvalAt reply ''nModified''),
               (''n'', rvalAt reply ''nMatched''),
               (''updatedExisting'',
                  VBool (0 < sint (toInt64 (double_toInt64 drv) (string_toInt64 drv)
                                     (rvalAt reply ''nMatched'')))),
               (''err'', rvalAt reply ''writeErrors''),
               (''errmsg'', rvalAt reply ''writeErrors''),
               (''lastOp'', VObj ''MongoTimestamp'' []),
               (''mongoRaw'', VArr reply)]"
  using assms
  by (auto simp: update_cases [OF refl refl] split: option.splits sum.splits)

text \<open>
  The reply \<open>{nMatched: 2, nModified: 1, writeErrors: []}\<close> gives \<open>n = 2\<close>,
  \<open>nModified = 1\<close>, \<open>updatedExisting = true\<close> and \<open>err = []\<close>.
\<close>

theorem update_result_projection_witness:
  "result (MongoCollection_update accepting_driver example_this
             [(''name'', VStr ''ann'')] [(''age'', VInt 30)] [])
     = Inr (VArr [(''ok'', VInt 1), (''nModified'', VInt 1), (''n'', VInt 2),
                  (''updatedExisting'', VBool True), (''err'', VArr []), (''errmsg'', VArr []),
                  (''lastOp'', VObj ''MongoTimestamp'' []),
                  (''mongoRaw'', VArr [(''nMatched'', VInt 2), (''nModified'', VInt 1),
                                       (''writeErrors'', VArr [])])])"
proof -
  have ex: "\<exists>r. result (MongoCollection_update accepting_driver example_this
                  [(''name'', VStr ''ann'')] [(''age'', VInt 30)] []) = Inr r"
    by (simp add: update_cases [OF refl refl] accepting_driver_def example_reply_decoded)
  then obtain r where r: "result (MongoCollection_update accepting_driver example_this
                  [(''name'', VStr ''ann'')] [(''age'', VInt 30)] []) = Inr r" ..
  from update_result_projection [OF r]
  have "r = VArr [(''ok'', VInt 1), (''nModified'', VInt 1), (''n'', VInt 2),
                  (''updatedExisting'', VBool True), (''err'', VArr []), (''errmsg'', VArr []),
                  (''lastOp'', VObj ''MongoTimestamp'' []),
                  (''mongoRaw'', VArr [(''nMatched'', VInt 2), (''nModified'', VInt 1),
                                       (''writeErrors'', VArr [])])]"
    by (auto simp: accepting_driver_def example_reply_decoded rvalAt_def)
  with r show ?thesis by simp
qed

section \<open>Identifier of an inserted document\<close>

text \<open>
  The array \<open>insert\<close> works on: when the document it is given has no \<open>_id\<close> key, the
  method's array is the given one followed by one \<open>_id\<close> entry, a \<open>MongoId\<close> built from
  the text of the generated object identifier, and it has exactly one \<open>_id\<close> key; when
  the document has an \<open>_id\<close> key the array is the given one. This array is what is
  encoded and submitted. The value returned on success is \<open>true\<close>.
\<close>

lemma insert_local_document:
  "(\<not> Array_exists a ''_id'' \<longrightarrow>
      doc_array (MongoCollection_insert drv this a options)
        = a @ [(''_id'', VObj ''MongoId'' [VStr (bson_oid_to_string (bson_oid_init drv))])]
      \<and> length (filter (\<lambda>kv. fst kv = ''_id'')
                  (doc_array (MongoCollection_insert drv this a options))) = 1)
   \<and> (Array_exists a ''_id'' \<longrightarrow> doc_array (MongoCollection_insert drv this a options) = a)
   \<and> submitted (trace (MongoCollection_insert drv this a options))
        = [Insert_req (get_collection this) MONGOC_INSERT_NONE
             (encodeToBSON drv (doc_array (MongoCollection_insert drv this a options)))
             (WriteConcern MONGOC_WRITE_CONCERN_W_DEFAULT)]"
proof -
  have "\<not> Array_exists a ''_id'' \<Longrightarrow> filter (\<lambda>kv. fst kv = ''_id'') a = []"
    by (force simp: Array_exists_def filter_empty_conv)
  then show ?thesis
    by (auto simp: insert_cases [OF refl refl] split: option.splits)
qed

lemma insert_returns_flag_only:
  "result (MongoCollection_insert drv this a options) = Inr v \<Longrightarrow> v = VBool True"
  by (simp add: insert_facts(3) [OF refl refl] split: option.splits)

text \<open>
  C2. A document without \<open>_id\<close> is to carry, after \<open>insert\<close>, exactly one \<open>_id\<close> key
  that the caller can read from the document. The method's comment promises the same
  (a new \<open>MongoId\<close> is created and assigned to the parameter). The code adds the key to
  the array of its by-value parameter only: inserting \<open>{name: "ann"}\<close>, the array that
  is encoded has the \<open>_id\<close>, the array the caller passed has none, and the call hands
  back nothing but \<open>true\<close>, so the caller cannot read the identifier.
\<close>

theorem insert_id_stays_in_the_method:
  "\<not> Array_exists [(''name'', VStr ''ann'')] ''_id''
   \<and> doc_array (MongoCollection_insert accepting_driver example_this [(''name'', VStr ''ann'')] [])
       = [(''name'', VStr ''ann''), (''_id'', VObj ''MongoId'' [VStr ''54ab000102030405060708ff''])]
   \<and> result (MongoCollection_insert accepting_driver example_this [(''name'', VStr ''ann'')] [])
       = Inr (VBool True)
   \<and> doc_array (MongoCollection_insert accepting_driver example_this
                  [(''_id'', VInt 7), (''name'', VStr ''bob'')] [])
       = [(''_id'', VInt 7), (''name'', VStr ''bob'')]"
  by (simp add: insert_facts [OF refl refl] Array_exists_def accepting_driver_def
        example_oid_string)

section \<open>Flags of update and remove\<close>

text \<open>
  C3. When the options \<open>multiple\<close> and \<open>upsert\<close> of an \<open>update\<close> call are both true, the
  one request the call submits carries the flag \<open>MONGOC_UPDATE_UPSERT\<close>: the flag set
  for \<open>multiple\<close> is overwritten.
\<close>

theorem update_upsert_wins:
  assumes "toBoolean (rvalAt options ''multiple'')" and "toBoolean (rvalAt options ''upsert'')"
  shows "submitted (trace (MongoCollection_update drv this criteria new_object options))
          = [Update_req (get_collection this) MONGOC_UPDATE_UPSERT
               (encodeToBSON drv criteria) (encodeToBSON drv new_object)
               (WriteConcern MONGOC_WRITE_CONCERN_W_DEFAULT)]"
  using assms
  by (simp add: update_cases [OF refl refl] split: option.split sum.split)

theorem update_upsert_wins_witness:
  "submitted (trace (MongoCollection_update accepting_driver example_this
                       [(''name'', VStr ''ann'')] [(''age'', VInt 30)]
                       [(''multiple'', VBool True), (''upsert'', VBool True)]))
     = [Update_req (Collection ''test'' ''users'') MONGOC_UPDATE_UPSERT
          (Bson True [Field ''name'' BNull]) (Bson True [Field ''age'' BNull])
          (WriteConcern MONGOC_WRITE_CONCERN_W_DEFAULT)]"
  using update_upsert_wins [of "[(''multiple'', VBool True), (''upsert'', VBool True)]"
      accepting_driver example_this "[(''name'', VStr ''ann'')]" "[(''age'', VInt 30)]"]
  by (simp add: rvalAt_def accepting_driver_def example_this_def get_collection_def
        example_encode_def)

text \<open>
  C4. When \<open>justOne\<close> is true in the options of a \<open>remove\<close> call, the one request the
  call submits carries the flag \<open>MONGOC_DELETE_SINGLE_REMOVE\<close>; when the options are
  empty or \<open>justOne\<close> is absent or false, it carries \<open>MONGOC_DELETE_NONE\<close>.
\<close>

theorem remove_delete_mode:
  "(toBoolean (rvalAt options ''justOne'') \<longrightarrow>
      submitted (trace (MongoCollection_remove drv this criteria options))
        = [Delete_req (get_collection this) MONGOC_DELETE_SINGLE_REMOVE
             (encodeToBSON drv criteria) (WriteConcern MONGOC_WRITE_CONCERN_W_DEFAULT)])
   \<and> (options = [] \<or> \<not> Array_exists options ''justOne''
        \<or> \<not> toBoolean (rvalAt options ''justOne'') \<longrightarrow>
      submitted (trace (MongoCollection_remove drv this criteria options))
        = [Delete_req (get_collection this) MONGOC_DELETE_NONE
             (encodeToBSON drv criteria) (WriteConcern MONGOC_WRITE_CONCERN_W_DEFAULT)])"
proof -
  have absent: "rvalAt options ''justOne'' = VNull" if "\<not> Array_exists options ''justOne''"
  proof -
    from that have "map_of options ''justOne'' = None"
      by (simp add: Array_exists_def map_of_eq_None_iff)
    then show ?thesis by (simp add: rvalAt_def)
  qed
  have empty: "options = [] \<Longrightarrow> rvalAt options ''justOne'' = VNull"
    by (simp add: rvalAt_def)
  have none: "\<not> toBoolean (rvalAt options ''justOne'')"
    if "options = [] \<or> \<not> Array_exists options ''justOne''
          \<or> \<not> toBoolean (rvalAt options ''justOne'')"
    using that absent empty by auto
  show ?thesis
    by (simp add: remove_facts(1) [OF refl] none)
qed

theorem remove_delete_mode_witness:
  "submitted (trace (MongoCollection_remove accepting_driver example_this
                       [(''name'', VStr ''ann'')] [(''justOne'', VBool True)]))
     = [Delete_req (Collection ''test'' ''users'') MONGOC_DELETE_SINGLE_REMOVE
          (Bson True [Field ''name'' BNull]) (WriteConcern MONGOC_WRITE_CONCERN_W_DEFAULT)]
   \<and> submitted (trace (MongoCollection_remove accepting_driver example_this
                       [(''name'', VStr ''ann'')] []))
     = [Delete_req (Collection ''test'' ''users'') MONGOC_DELETE_NONE
          (Bson True [Field ''name'' BNull]) (WriteConcern MONGOC_WRITE_CONCERN_W_DEFAULT)]"
  using remove_delete_mode [of "[(''justOne'', VBool True)]" accepting_driver example_this
      "[(''name'', VStr ''ann'')]"]
    remove_delete_mode [of "[]" accepting_driver example_this "[(''name'', VStr ''ann'')]"]
  by (simp add: rvalAt_def accepting_driver_def example_this_def get_collection_def
        example_encode_def)

section \<open>Truncated input\<close>

text \<open>
  C5. A buffer of fewer than 5 bytes, and a buffer shorter than the length it declares,
  is not decoded: \<open>cbson_loads_from_string\<close> ends with a \<open>MongoException\<close> saying that
  the BSON ended unexpectedly, and returns no array, whatever the library would make of
  the bytes.
\<close>

theorem truncated_buffer_is_rejected:
  assumes "length buf < 5 \<or> int (length buf) < declared_length buf"
  shows "cbson_loads_from_string view buf
           = Inl (MongoException ''Unexpected end of BSON. Input document is likely corrupted!'')"
  using assms
  by (auto simp: cbson_loads_from_string_def bson_reader_read_def Let_def mongoThrow_def)

lemma example_declared_length:
  "declared_length [CHR 0x10, CHR 0x00, CHR 0x00, CHR 0x00, CHR 0x0A, CHR 0x61, CHR 0x00] = 16"
  by (simp add: declared_length_def byte_at_def)

theorem truncated_buffer_is_rejected_witness:
  "cbson_loads_from_string example_view [CHR 0x05, CHR 0x00, CHR 0x00]
     = Inl (MongoException ''Unexpected end of BSON. Input document is likely corrupted!'')
   \<and> cbson_loads_from_string example_view
       [CHR 0x10, CHR 0x00, CHR 0x00, CHR 0x00, CHR 0x0A, CHR 0x61, CHR 0x00]
     = Inl (MongoException ''Unexpected end of BSON. Input document is likely corrupted!'')"
  using truncated_buffer_is_rejected [of "[CHR 0x05, CHR 0x00, CHR 0x00]" example_view]
    truncated_buffer_is_rejected
      [of "[CHR 0x10, CHR 0x00, CHR 0x00, CHR 0x00, CHR 0x0A, CHR 0x61, CHR 0x00]" example_view]
  by (simp add: example_declared_length)

section \<open>Timestamps\<close>

text \<open>
  C6. Wherever a timestamp element stands in a document, its visitor appends one entry
  to the output and lets the traversal continue: a \<open>MongoTimestamp\<close> built from two
  arguments, the seconds and the increment, each widened to 64 bits with its value
  unchanged. Two timestamps give the same output only when both fields agree; the
  timestamp (100, 1) never gives what (0, 100001) gives. In particular a document with
  one timestamp element decodes to that one entry.
\<close>

theorem timestamp_fields_kept_apart:
  "cbson_loads_visit_timestamp key seconds increment output
     = (False, output @ [(key, VObj ''MongoTimestamp''
                                 [VInt (ucast seconds), VInt (ucast increment)])])
   \<and> bson_iter_visit_all (Field key (BTimestamp seconds increment) # rest) output
     = bson_iter_visit_all rest
         (output @ [(key, VObj ''MongoTimestamp''
                            [VInt (ucast seconds), VInt (ucast increment)])])
   \<and> uint (ucast seconds :: 64 word) = uint seconds
   \<and> uint (ucast increment :: 64 word) = uint increment
   \<and> ((cbson_loads_visit_timestamp key seconds increment output
        = cbson_loads_visit_timestamp key seconds' increment' output)
       = (seconds = seconds' \<and> increment = increment'))
   \<and> cbson_loads_visit_timestamp key 100 1 output
       \<noteq> cbson_loads_visit_timestamp key 0 100001 output
   \<and> cbson_loads (Some (Bson True [Field key (BTimestamp seconds increment)]))
     = Inr [(key, VObj ''MongoTimestamp'' [VInt (ucast seconds), VInt (ucast increment)])]
   \<and> ((cbson_loads (Some (Bson True [Field key (BTimestamp seconds increment)]))
        = cbson_loads (Some (Bson True [Field key (BTimestamp seconds' increment')])))
       = (seconds = seconds' \<and> increment = increment'))
   \<and> cbson_loads (Some (Bson True [Field key (BTimestamp 100 1)]))
       \<noteq> cbson_loads (Some (Bson True [Field key (BTimestamp 0 100001)]))"
proof -
  have up: "uint (ucast w :: 64 word) = uint w" for w :: "32 word"
    by (simp add: uint_up_ucast is_up)
  have inj: "((ucast w :: 64 word) = ucast w') = (w = w')" for w w' :: "32 word"
    using up [of w] up [of w'] by (metis word_uint_eq_iff)
  have v: "cbson_loads_visit_timestamp key s i out
             = (False, out @ [(key, VObj ''MongoTimestamp'' [VInt (ucast s), VInt (ucast i)])])"
    for s i out
    by (simp add: cbson_loads_visit_timestamp_def Array_add_def create_object_def
          s_MongoTimestamp_def)
  show ?thesis
    by (simp add: cbson_loads_def v up inj)
qed

section \<open>Write failures\<close>

text \<open>
  C7. When the driver answers the request of an \<open>insert\<close>, \<open>remove\<close> or \<open>update\<close> call
  with a failure, the call ends with a \<open>MongoCursorException\<close> carrying the driver's
  message unchanged; it returns no value, and the request was submitted once.
\<close>

theorem write_failure_is_thrown:
  "(req \<in> set (submitted (trace (MongoCollection_insert drv this a options)))
      \<and> mongoc_reply drv req = Some message \<longrightarrow>
      result (MongoCollection_insert drv this a options) = Inl (MongoCursorException message)
      \<and> submitted (trace (MongoCollection_insert drv this a options)) = [req])
   \<and> (req \<in> set (submitted (trace (MongoCollection_remove drv this criteria options)))
      \<and> mongoc_reply drv req = Some message \<longrightarrow>
      result (MongoCollection_remove drv this criteria options)
        = Inl (MongoCursorException message)
      \<and> submitted (trace (MongoCollection_remove drv this criteria options)) = [req])
   \<and> (req \<in> set (submitted (trace (MongoCollection_update drv this criteria new_object options)))
      \<and> mongoc_reply drv req = Some message \<longrightarrow>
      result (MongoCollection_update drv this criteria new_object options)
        = Inl (MongoCursorException message)
      \<and> submitted (trace (MongoCollection_update drv this criteria new_object options)) = [req])"
proof (intro conjI impI)
  define d where "d = (if Array_exists a ''_id'' then a
      else a @ [(''_id'', VObj ''MongoId'' [VStr (bson_oid_to_string (bson_oid_init drv))])])"
  define r0 where "r0 = Insert_req (get_collection this) MONGOC_INSERT_NONE (encodeToBSON drv d)
      (WriteConcern MONGOC_WRITE_CONCERN_W_DEFAULT)"
  note f = insert_facts [OF d_def r0_def, of options]
  assume "req \<in> set (submitted (trace (MongoCollection_insert drv this a options)))
      \<and> mongoc_reply drv req = Some message"
  then show "result (MongoCollection_insert drv this a options) = Inl (MongoCursorException message)"
    and "submitted (trace (MongoCollection_insert drv this a options)) = [req]"
    by (auto simp: f)
next
  define r0 where "r0 = Delete_req (get_collection this)
      (if toBoolean (rvalAt options ''justOne'') then MONGOC_DELETE_SINGLE_REMOVE
       else MONGOC_DELETE_NONE)
      (encodeToBSON drv criteria) (WriteConcern MONGOC_WRITE_CONCERN_W_DEFAULT)"
  note f = remove_facts [OF r0_def]
  assume "req \<in> set (submitted (trace (MongoCollection_remove drv this criteria options)))
      \<and> mongoc_reply drv req = Some message"
  then show "result (MongoCollection_remove drv this criteria options)
        = Inl (MongoCursorException message)"
    and "submitted (trace (MongoCollection_remove drv this criteria options)) = [req]"
    by (auto simp: f)
next
  define r0 where "r0 = Update_req (get_collection this)
      (if toBoolean (rvalAt options ''upsert'') then MONGOC_UPDATE_UPSERT
       else if toBoolean (rvalAt options ''multiple'') then MONGOC_UPDATE_MULTI_UPDATE
       else MONGOC_UPDATE_NONE)
      (encodeToBSON drv criteria) (encodeToBSON drv new_object)
      (WriteConcern MONGOC_WRITE_CONCERN_W_DEFAULT)"
  note f = update_facts [OF r0_def]
  assume "req \<in> set (submitted (trace (MongoCollection_update drv this criteria new_object options)))
      \<and> mongoc_reply drv req = Some message"
  then show "result (MongoCollection_update drv this criteria new_object options)
        = Inl (MongoCursorException message)"
    and "submitted (trace (MongoCollection_update drv this criteria new_object options)) = [req]"
    by (auto simp: f)
qed

theorem write_failure_is_thrown_witness:
  "result (MongoCollection_insert rejecting_driver example_this [(''name'', VStr ''ann'')] [])
     = Inl (MongoCursorException ''E11000 duplicate key error'')
   \<and> result (MongoCollection_remove rejecting_driver example_this [(''name'', VStr ''ann'')] [])
     = Inl (MongoCursorException ''E11000 duplicate key error'')
   \<and> result (MongoCollection_update rejecting_driver example_this [(''name'', VStr ''ann'')]
               [(''age'', VInt 30)] [])
     = Inl (MongoCursorException ''E11000 duplicate key error'')"
proof -
  let ?m = "''E11000 duplicate key error''"
  have r: "mongoc_reply rejecting_driver q = Some ?m" for q
    by (simp add: rejecting_driver_def)
  have i: "hd (submitted (trace (MongoCollection_insert rejecting_driver example_this
                [(''name'', VStr ''ann'')] [])))
           \<in> set (submitted (trace (MongoCollection_insert rejecting_driver example_this
                [(''name'', VStr ''ann'')] [])))"
    by (simp add: insert_facts [OF refl refl])
  have d: "hd (submitted (trace (MongoCollection_remove rejecting_driver example_this
                [(''name'', VStr ''ann'')] [])))
           \<in> set (submitted (trace (MongoCollection_remove rejecting_driver example_this
                [(''name'', VStr ''ann'')] [])))"
    by (simp add: remove_facts [OF refl])
  have u: "hd (submitted (trace (MongoCollection_update rejecting_driver example_this
                [(''name'', VStr ''ann'')] [(''age'', VInt 30)] [])))
           \<in> set (submitted (trace (MongoCollection_update rejecting_driver example_this
                [(''name'', VStr ''ann'')] [(''age'', VInt 30)] [])))"
    by (simp add: update_facts [OF refl])
  from write_failure_is_thrown [where drv = rejecting_driver and message = ?m
      and this = example_this and a = "[(''name'', VStr ''ann'')]" and options = "[]"]
    write_failure_is_thrown [where drv = rejecting_driver and message = ?m
      and this = example_this and criteria = "[(''name'', VStr ''ann'')]" and options = "[]"]
    write_failure_is_thrown [where drv = rejecting_driver and message = ?m
      and this = example_this and criteria = "[(''name'', VStr ''ann'')]"
      and new_object = "[(''age'', VInt 30)]" and options = "[]"]
    i d u r
  show ?thesis by blast
qed

section \<open>Resources\<close>

text \<open>
  What the methods release. A call that returns a value has released the collection
  handle and the encoded documents it obtained; \<open>update\<close> has released its two encoded
  documents on every path, since it destroys them before it tests the driver's answer;
  the write concern is released on no path.
\<close>

lemma released_by_the_methods:
  "(result (MongoCollection_insert drv this a options) = Inr v \<longrightarrow>
      acquired (trace (MongoCollection_insert drv this a options))
        = [R_collection, R_doc, R_write_concern]
      \<and> released (trace (MongoCollection_insert drv this a options)) = [R_collection, R_doc])
   \<and> (result (MongoCollection_remove drv this criteria options) = Inr v \<longrightarrow>
      acquired (trace (MongoCollection_remove drv this criteria options))
        = [R_collection, R_criteria_b, R_write_concern]
      \<and> released (trace (MongoCollection_remove drv this criteria options))
        = [R_collection, R_criteria_b])
   \<and> (result (MongoCollection_update drv this criteria new_object options) = Inr v \<longrightarrow>
      acquired (trace (MongoCollection_update drv this criteria new_object options))
        = [R_collection, R_selector, R_update, R_write_concern]
      \<and> released (trace (MongoCollection_update drv this criteria new_object options))
        = [R_update, R_selector, R_collection])
   \<and> R_update \<in> set (released (trace (MongoCollection_update drv this criteria new_object options)))
   \<and> R_selector \<in> set (released (trace (MongoCollection_update drv this criteria new_object options)))
   \<and> R_write_concern \<notin> set (released (trace (MongoCollection_insert drv this a options)))
   \<and> R_write_concern \<notin> set (released (trace (MongoCollection_remove drv this criteria options)))
   \<and> R_write_concern
        \<notin> set (released (trace (MongoCollection_update drv this criteria new_object options)))"
proof -
  note i = insert_facts [OF refl refl, of drv this a options]
  note r = remove_facts [OF refl, of drv this criteria options]
  note u = update_facts [OF refl, of drv this criteria new_object options]
  have "result (MongoCollection_insert drv this a options) = Inr v \<longrightarrow>
      acquired (trace (MongoCollection_insert drv this a options))
        = [R_collection, R_doc, R_write_concern]
      \<and> released (trace (MongoCollection_insert drv this a options)) = [R_collection, R_doc]"
    unfolding i by (simp split: option.split)
  moreover have "result (MongoCollection_remove drv this criteria options) = Inr v \<longrightarrow>
      acquired (trace (MongoCollection_remove drv this criteria options))
        = [R_collection, R_criteria_b, R_write_concern]
      \<and> released (trace (MongoCollection_remove drv this criteria options))
        = [R_collection, R_criteria_b]"
    unfolding r by (simp split: option.split)
  moreover have "result (MongoCollection_update drv this criteria new_object options) = Inr v \<longrightarrow>
      acquired (trace (MongoCollection_update drv this criteria new_object options))
        = [R_collection, R_selector, R_update, R_write_concern]
      \<and> released (trace (MongoCollection_update drv this criteria new_object options))
        = [R_update, R_selector, R_collection]"
    by (simp add: u(3,4))
  moreover have "R_update \<in> set (released (trace (MongoCollection_update drv this criteria new_object options)))"
    and "R_selector \<in> set (released (trace (MongoCollection_update drv this criteria new_object options)))"
    and "R_write_concern
        \<notin> set (released (trace (MongoCollection_update drv this criteria new_object options)))"
    by (simp_all add: u(4) split: sum.split)
  moreover have "R_write_concern \<notin> set (released (trace (MongoCollection_insert drv this a options)))"
    unfolding i by (simp split: option.split)
  moreover have "R_write_concern \<notin> set (released (trace (MongoCollection_remove drv this criteria options)))"
    unfolding r by (simp split: option.split)
  ultimately show ?thesis by blast
qed

text \<open>
  C8. Every call is to release, before it returns, the encoded documents, the collection
  handle and the write concern it obtained, whether it succeeds or fails. The code does
  not: when the driver rejects the write, \<open>insert\<close> and \<open>remove\<close> throw before their
  destroy calls and release nothing, and \<open>update\<close> releases its two encoded documents
  but keeps the collection handle; and a successful \<open>insert\<close> has released the
  collection handle and the encoded document but not the write concern.
\<close>

theorem failed_write_leaks_resources:
  "result (MongoCollection_insert rejecting_driver example_this [(''name'', VStr ''ann'')] [])
     = Inl (MongoCursorException ''E11000 duplicate key error'')
   \<and> acquired (trace (MongoCollection_insert rejecting_driver example_this
                       [(''name'', VStr ''ann'')] [])) = [R_collection, R_doc, R_write_concern]
   \<and> released (trace (MongoCollection_insert rejecting_driver example_this
                       [(''name'', VStr ''ann'')] [])) = []
   \<and> acquired (trace (MongoCollection_remove rejecting_driver example_this
                       [(''name'', VStr ''ann'')] []))
       = [R_collection, R_criteria_b, R_write_concern]
   \<and> released (trace (MongoCollection_remove rejecting_driver example_this
                       [(''name'', VStr ''ann'')] [])) = []
   \<and> acquired (trace (MongoCollection_update rejecting_driver example_this
                       [(''name'', VStr ''ann'')] [(''age'', VInt 30)] []))
       = [R_collection, R_selector, R_update, R_write_concern]
   \<and> released (trace (MongoCollection_update rejecting_driver example_this
                       [(''name'', VStr ''ann'')] [(''age'', VInt 30)] []))
       = [R_update, R_selector]
   \<and> result (MongoCollection_insert accepting_driver example_this [(''name'', VStr ''ann'')] [])
       = Inr (VBool True)
   \<and> acquired (trace (MongoCollection_insert accepting_driver example_this
                       [(''name'', VStr ''ann'')] [])) = [R_collection, R_doc, R_write_concern]
   \<and> released (trace (MongoCollection_insert accepting_driver example_this
                       [(''name'', VStr ''ann'')] [])) = [R_collection, R_doc]"
proof -
  have u: "result (MongoCollection_update rejecting_driver example_this
                     [(''name'', VStr ''ann'')] [(''age'', VInt 30)] [])
             = Inl (MongoCursorException ''E11000 duplicate key error'')"
    by (rule update_facts(2) [OF refl]) (simp add: rejecting_driver_def)
  have ur: "released (trace (MongoCollection_update rejecting_driver example_this
                       [(''name'', VStr ''ann'')] [(''age'', VInt 30)] []))
       = [R_update, R_selector]"
    by (simp add: update_facts(4) [OF refl] u)
  have ua: "acquired (trace (MongoCollection_update rejecting_driver example_this
                       [(''name'', VStr ''ann'')] [(''age'', VInt 30)] []))
       = [R_collection, R_selector, R_update, R_write_concern]"
    by (rule update_facts(3) [OF refl])
  have rest: "result (MongoCollection_insert rejecting_driver example_this
                        [(''name'', VStr ''ann'')] [])
       = Inl (MongoCursorException ''E11000 duplicate key error'')"
    "acquired (trace (MongoCollection_insert rejecting_driver example_this
                       [(''name'', VStr ''ann'')] [])) = [R_collection, R_doc, R_write_concern]"
    "released (trace (MongoCollection_insert rejecting_driver example_this
                       [(''name'', VStr ''ann'')] [])) = []"
    "acquired (trace (MongoCollection_remove rejecting_driver example_this
                       [(''name'', VStr ''ann'')] []))
       = [R_collection, R_criteria_b, R_write_concern]"
    "released (trace (MongoCollection_remove rejecting_driver example_this
                       [(''name'', VStr ''ann'')] [])) = []"
    "result (MongoCollection_insert accepting_driver example_this [(''name'', VStr ''ann'')] [])
       = Inr (VBool True)"
    "acquired (trace (MongoCollection_insert accepting_driver example_this
                       [(''name'', VStr ''ann'')] [])) = [R_collection, R_doc, R_write_concern]"
    "released (trace (MongoCollection_insert accepting_driver example_this
                       [(''name'', VStr ''ann'')] [])) = [R_collection, R_doc]"
    by (simp_all add: insert_facts [OF refl refl] remove_facts [OF refl]
          accepting_driver_def rejecting_driver_def)
  from ur ua rest show ?thesis by simp
qed

section \<open>Options of insert\<close>

text \<open>
  C9. The outcome of \<open>insert\<close> does not depend on its options: two calls that differ
  only in the options have the same trace, the same result and the same document, and
  the request is submitted with the default write concern and no insert flag.
\<close>

theorem insert_ignores_options:
  "MongoCollection_insert drv this a options1 = MongoCollection_insert drv this a options2
   \<and> (\<exists>doc. submitted (trace (MongoCollection_insert drv this a options1))
         = [Insert_req (get_collection this) MONGOC_INSERT_NONE doc
              (WriteConcern MONGOC_WRITE_CONCERN_W_DEFAULT)])"
proof -
  have "MongoCollection_insert drv this a options1 = MongoCollection_insert drv this a options2"
    by (simp only: insert_cases [OF refl refl])
  moreover have "\<exists>doc. submitted (trace (MongoCollection_insert drv this a options1))
         = [Insert_req (get_collection this) MONGOC_INSERT_NONE doc
              (WriteConcern MONGOC_WRITE_CONCERN_W_DEFAULT)]"
    using insert_facts(1) [OF refl refl, where drv = drv and this = this and a = a
        and options = options1]
    by blast
  ultimately show ?thesis by blast
qed

section \<open>Children that fail\<close>

text \<open>
  C10. When the iterator of an embedded document or array cannot be initialised, or the
  traversal of the child reports early termination, the visitor leaves the parent array
  as it is and returns the signal to continue: the parent traversal goes on with the
  remaining elements as if the element were absent, and decoding raises no error.
\<close>

theorem failed_child_is_omitted:
  assumes "\<not> iter_init_ok child \<or> fst (bson_iter_visit_all (steps child) [])"
  shows "cbson_loads_visit_document key child ret = (False, ret)
       \<and> cbson_loads_visit_array key child ret = (False, ret)
       \<and> bson_iter_visit_all (Field key (BDocument child) # rest) ret
           = bson_iter_visit_all rest ret
       \<and> bson_iter_visit_all (Field key (BArray child) # rest) ret
           = bson_iter_visit_all rest ret
       \<and> cbson_loads (Some (Bson True (Field key (BDocument child) # rest)))
           = Inr (snd (bson_iter_visit_all rest []))
       \<and> cbson_loads (Some (Bson True (Field key (BArray child) # rest)))
           = Inr (snd (bson_iter_visit_all rest []))"
proof (cases child)
  case (Bson ok sts)
  obtain stop obj where v: "bson_iter_visit_all sts [] = (stop, obj)"
    by (cases "bson_iter_visit_all sts []")
  from assms Bson v have c: "\<not> ok \<or> stop" by simp
  have d: "cbson_loads_visit_document key child r = (False, r)" for r
    using c Bson v by auto
  have a: "cbson_loads_visit_array key child r = (False, r)" for r
    using c Bson v by auto
  show ?thesis
    by (simp add: d a cbson_loads_def)
qed

theorem failed_child_is_omitted_witness:
  "cbson_loads (Some (Bson True [Field ''a'' (BDocument (Bson False [Field ''x'' BNull])),
                                 Field ''b'' (BArray (Bson True [Field ''0'' BNull, Utf8Error])),
                                 Field ''c'' (BBool True)]))
     = Inr [(''c'', VBool True)]"
proof -
  have 1: "\<not> iter_init_ok (Bson False [Field ''x'' BNull])
             \<or> fst (bson_iter_visit_all (steps (Bson False [Field ''x'' BNull])) [])"
    by simp
  have 2: "\<not> iter_init_ok (Bson True [Field ''0'' BNull, Utf8Error])
             \<or> fst (bson_iter_visit_all (steps (Bson True [Field ''0'' BNull, Utf8Error])) [])"
    by (simp add: cbson_loads_visit_null_def)
  from failed_child_is_omitted [OF 1, of "''a''" "[]"
      "[Field ''b'' (BArray (Bson True [Field ''0'' BNull, Utf8Error])), Field ''c'' (BBool True)]"]
    failed_child_is_omitted [OF 2, of "''b''" "[]" "[Field ''c'' (BBool True)]"]
  show ?thesis
    by (simp add: cbson_loads_visit_bool_def Array_add_def)
qed

end
